theory Spec2Isabelle
  imports Complex_Main "HOL-Library.Log_Nat"
begin

section \<open>JavaScript numbers\<close>

text \<open>
  The component computes with JavaScript numbers. A number is a real, or one of the
  three special values that division and multiplication can produce: \<open>Infinity\<close>,
  \<open>-Infinity\<close> and \<open>NaN\<close>. The functions of this section give the exact result of
  an operation on finite numbers; section \<open>Double precision\<close> adds the rounding to
  the nearest double. The sign of zero is not modelled: a zero divisor counts as \<open>+0\<close>
  (the only divisors in the component are \<open>clientWidth\<close>, \<open>clientHeight\<close> and the
  literal \<open>2\<close>, none of which is ever \<open>-0\<close>).
\<close>

datatype jsnum = Fin real | PosInf | NegInf | NaN

fun js_neg :: "jsnum \<Rightarrow> jsnum" where
  "js_neg (Fin a) = Fin (- a)"
| "js_neg PosInf = NegInf"
| "js_neg NegInf = PosInf"
| "js_neg NaN = NaN"

fun js_add :: "jsnum \<Rightarrow> jsnum \<Rightarrow> jsnum" where
  "js_add NaN _ = NaN"
| "js_add _ NaN = NaN"
| "js_add (Fin a) (Fin b) = Fin (a + b)"
| "js_add (Fin a) PosInf = PosInf"
| "js_add (Fin a) NegInf = NegInf"
| "js_add PosInf (Fin b) = PosInf"
| "js_add NegInf (Fin b) = NegInf"
| "js_add PosInf PosInf = PosInf"
| "js_add NegInf NegInf = NegInf"
| "js_add PosInf NegInf = NaN"
| "js_add NegInf PosInf = NaN"

definition js_sub :: "jsnum \<Rightarrow> jsnum \<Rightarrow> jsnum" where
  "js_sub a b = js_add a (js_neg b)"

definition inf_of_sign :: "real \<Rightarrow> jsnum" where
  \<comment> \<open>the product of an infinity of positive sign with the finite factor \<open>a\<close>\<close>
  "inf_of_sign a = (if a = 0 then NaN else if 0 < a then PosInf else NegInf)"

fun js_mul :: "jsnum \<Rightarrow> jsnum \<Rightarrow> jsnum" where
  "js_mul NaN _ = NaN"
| "js_mul _ NaN = NaN"
| "js_mul (Fin a) (Fin b) = Fin (a * b)"
| "js_mul (Fin a) PosInf = inf_of_sign a"
| "js_mul (Fin a) NegInf = inf_of_sign (- a)"
| "js_mul PosInf (Fin b) = inf_of_sign b"
| "js_mul NegInf (Fin b) = inf_of_sign (- b)"
| "js_mul PosInf PosInf = PosInf"
| "js_mul NegInf NegInf = PosInf"
| "js_mul PosInf NegInf = NegInf"
| "js_mul NegInf PosInf = NegInf"

fun js_div :: "jsnum \<Rightarrow> jsnum \<Rightarrow> jsnum" where
  "js_div NaN _ = NaN"
| "js_div _ NaN = NaN"
| "js_div (Fin a) (Fin b) = (if b = 0 then inf_of_sign a else Fin (a / b))"
| "js_div (Fin a) PosInf = Fin 0"
| "js_div (Fin a) NegInf = Fin 0"
| "js_div PosInf (Fin b) = (if 0 \<le> b then PosInf else NegInf)"
| "js_div NegInf (Fin b) = (if 0 \<le> b then NegInf else PosInf)"
| "js_div PosInf PosInf = NaN"
| "js_div NegInf NegInf = NaN"
| "js_div PosInf NegInf = NaN"
| "js_div NegInf PosInf = NaN"

text \<open>Comparisons: every comparison with \<open>NaN\<close> is false.\<close>

fun js_lt :: "jsnum \<Rightarrow> jsnum \<Rightarrow> bool" where
  "js_lt NaN _ = False"
| "js_lt _ NaN = False"
| "js_lt (Fin a) (Fin b) = (a < b)"
| "js_lt (Fin a) PosInf = True"
| "js_lt (Fin a) NegInf = False"
| "js_lt PosInf _ = False"
| "js_lt NegInf (Fin b) = True"
| "js_lt NegInf PosInf = True"
| "js_lt NegInf NegInf = False"

fun js_le :: "jsnum \<Rightarrow> jsnum \<Rightarrow> bool" where
  "js_le NaN _ = False"
| "js_le _ NaN = False"
| "js_le (Fin a) (Fin b) = (a \<le> b)"
| "js_le (Fin a) PosInf = True"
| "js_le (Fin a) NegInf = False"
| "js_le PosInf PosInf = True"
| "js_le PosInf _ = False"
| "js_le NegInf _ = True"

definition js_gt :: "jsnum \<Rightarrow> jsnum \<Rightarrow> bool" where
  "js_gt a b = js_lt b a"

definition js_ge :: "jsnum \<Rightarrow> jsnum \<Rightarrow> bool" where
  "js_ge a b = js_le b a"

section \<open>Data of the component\<close>

text \<open>
  The rectangle returned by \<open>getBoundingClientRect()\<close>; the fields are the DOMRect's
  \<open>top\<close>, \<open>left\<close>, \<open>width\<close> and \<open>height\<close>.
\<close>

record dom_rect =
  rect_top :: jsnum
  rect_left :: jsnum
  rect_width :: jsnum
  rect_height :: jsnum

text \<open>The props that \<open>setup\<close> reads in the handlers and in \<open>mgStyle\<close>.\<close>

record props =
  src :: string
  zoomImgSrc :: string
  zoomFactor :: jsnum
  mgWidth :: jsnum
  mgHeight :: jsnum
  mgBorderWidth :: jsnum
  mgMouseOffsetX :: jsnum
  mgMouseOffsetY :: jsnum
  mgTouchOffsetX :: jsnum
  mgTouchOffsetY :: jsnum
  mgCornerBgColor :: string

text \<open>The part of \<open>window\<close> that \<open>mgStyle\<close> reads.\<close>

record window =
  innerWidth :: jsnum
  scrollX :: jsnum
  scrollY :: jsnum

text \<open>
  The template ref \<open>img\<close>: \<open>None\<close> is \<open>null\<close> (no element yet), \<open>Some r\<close> an element
  whose \<open>getBoundingClientRect()\<close> returns \<open>r\<close>.
\<close>

record dom =
  img :: "dom_rect option"

text \<open>The refs created by \<open>setup\<close>: the state of the engine.\<close>

record engine_state =
  imgBounds :: "dom_rect option"
  showZoom :: bool
  mgOffsetX :: jsnum
  mgOffsetY :: jsnum
  relX :: jsnum
  relY :: jsnum

definition initial_state :: engine_state where
  "initial_state =
     \<lparr>imgBounds = None, showZoom = False, mgOffsetX = Fin 0, mgOffsetY = Fin 0,
      relX = Fin 0, relY = Fin 0\<rparr>"

text \<open>The element an event is dispatched to, and the coordinates of a pointer.\<close>

record element =
  clientWidth :: jsnum
  clientHeight :: jsnum

record pointer =
  clientX :: jsnum
  clientY :: jsnum

record mouse_event = pointer +
  target :: element

text \<open>
  A touch event: \<open>e.targetTouches\<close> (each Touch carries \<open>clientX\<close> and
  \<open>clientY\<close>) and \<open>e.target\<close>, here \<open>touchTarget\<close>.
\<close>

record touch_event =
  targetTouches :: "pointer list"
  touchTarget :: element

text \<open>
  What a handler does to the outside world, in the order it does it: \<open>emit\<close>,
  \<open>console.log\<close>, and the call of \<open>getBoundingClientRect()\<close>.
\<close>

datatype effect = Emit string | ConsoleLog string | GetBoundingClientRect

text \<open>
  A handler either returns or throws; either way it leaves a state behind (the refs as
  they were when it stopped).
\<close>

datatype js_error = TypeError

datatype completion = Normal engine_state | Throw js_error engine_state

section \<open>The lens style\<close>

text \<open>
  \<open>mgStyle\<close> returns an object of CSS strings built by template literals. Each string
  is represented by the numbers interpolated into it: \<open>`${n}px`\<close> by \<open>n\<close>, the two
  \<open>calc(${p}% + ${a}px - ${s}px)\<close> of \<open>backgroundPosition\<close> by a \<open>calc\<close> each, and
  \<open>backgroundSize\<close> by its two percentages.
\<close>

record calc =
  calc_percent :: jsnum
  calc_plus_px :: jsnum
  calc_minus_px :: jsnum

record lens_style =
  style_width :: jsnum
  style_height :: jsnum
  style_left :: jsnum
  style_top :: jsnum
  backgroundImage :: string
  backgroundPosition :: "calc \<times> calc"
  backgroundSize :: "jsnum \<times> jsnum"
  borderWidth :: jsnum
  backgroundColor :: string

text \<open>The local \<open>left\<close> of \<open>mgStyle\<close> before the two clamping statements.\<close>

definition unclamped_left :: "props \<Rightarrow> window \<Rightarrow> engine_state \<Rightarrow> dom_rect \<Rightarrow> jsnum" where
  "unclamped_left p w s b =
     (let x = js_add (js_sub (js_mul (relX s) (rect_width b)) (js_div (mgWidth p) (Fin 2)))
                (mgOffsetX s)
      in js_add (js_add (rect_left b) x) (scrollX w))"

text \<open>The two \<open>if\<close> statements that clamp \<open>left\<close>, in the order of the source.\<close>

definition clamp_left :: "props \<Rightarrow> window \<Rightarrow> jsnum \<Rightarrow> jsnum" where
  "clamp_left p w left0 =
     (let viewportWidth = innerWidth w;
          left1 = (if js_lt left0 (scrollX w) then scrollX w else left0);
          left2 = (if js_gt (js_add left1 (mgWidth p)) (js_add viewportWidth (scrollX w))
                   then js_sub (js_add viewportWidth (scrollX w)) (mgWidth p)
                   else left1)
      in left2)"

text \<open>\<open>mgStyle\<close>; \<open>None\<close> is the empty object returned while there are no bounds.\<close>

definition mgStyle :: "props \<Rightarrow> window \<Rightarrow> engine_state \<Rightarrow> lens_style option" where
  "mgStyle p w s =
     (case imgBounds s of
        None \<Rightarrow> None
      | Some b \<Rightarrow>
          (let y = js_add (js_sub (js_mul (relY s) (rect_height b)) (js_div (mgHeight p) (Fin 2)))
                     (mgOffsetY s);
               top = js_add (js_add (rect_top b) y) (scrollY w);
               left = clamp_left p w (unclamped_left p w s b)
           in Some
             \<lparr>style_width = mgWidth p,
              style_height = mgHeight p,
              style_left = left,
              style_top = top,
              backgroundImage = (if zoomImgSrc p = [] then src p else zoomImgSrc p),
              backgroundPosition =
                (\<lparr>calc_percent = js_mul (relX s) (Fin 100),
                  calc_plus_px = js_div (mgWidth p) (Fin 2),
                  calc_minus_px = js_mul (relX s) (mgWidth p)\<rparr>,
                 \<lparr>calc_percent = js_mul (relY s) (Fin 100),
                  calc_plus_px = js_div (mgHeight p) (Fin 2),
                  calc_minus_px = js_mul (relY s) (mgWidth p)\<rparr>),
              backgroundSize =
                (js_mul (zoomFactor p) (rect_width b), js_mul (zoomFactor p) (rect_height b)),
              borderWidth = mgBorderWidth p,
              backgroundColor = mgCornerBgColor p\<rparr>))"

section \<open>The handlers\<close>

definition calcImgBounds :: "dom \<Rightarrow> engine_state \<Rightarrow> effect list \<times> engine_state" where
  "calcImgBounds d s =
     (case img d of
        None \<Rightarrow> ([ConsoleLog ''calcImgBounds''], s)
      | Some r \<Rightarrow> ([ConsoleLog ''calcImgBounds'', GetBoundingClientRect], s\<lparr>imgBounds := Some r\<rparr>))"

definition onImageLoad :: "dom \<Rightarrow> engine_state \<Rightarrow> effect list \<times> engine_state" where
  "onImageLoad d s =
     (let (effects, s') = calcImgBounds d s in (Emit ''image:load'' # effects, s'))"

definition onMouseEnter :: "dom \<Rightarrow> engine_state \<Rightarrow> effect list \<times> engine_state" where
  "onMouseEnter d s = calcImgBounds d s"

definition onMouseMove :: "props \<Rightarrow> mouse_event \<Rightarrow> engine_state \<Rightarrow> engine_state" where
  "onMouseMove p e s =
     (case imgBounds s of
        None \<Rightarrow> s
      | Some b \<Rightarrow>
          s\<lparr>mgOffsetX := mgMouseOffsetX p,
            mgOffsetY := mgMouseOffsetY p,
            relX := js_div (js_sub (clientX e) (rect_left b)) (clientWidth (target e)),
            relY := js_div (js_sub (clientY e) (rect_top b)) (clientHeight (target e)),
            showZoom := True\<rparr>)"

definition onMouseOut :: "engine_state \<Rightarrow> engine_state" where
  "onMouseOut s = s\<lparr>showZoom := False\<rparr>"

definition onTouchStart :: "dom \<Rightarrow> engine_state \<Rightarrow> effect list \<times> engine_state" where
  "onTouchStart d s = calcImgBounds d s"

text \<open>
  \<open>onTouchMove\<close> reads \<open>e.targetTouches[0].clientX\<close>: on an empty list
  \<open>e.targetTouches[0]\<close> is \<open>undefined\<close> and the property read throws a TypeError,
  after the test of the bounds and before any ref is written.
\<close>

definition onTouchMove :: "props \<Rightarrow> touch_event \<Rightarrow> engine_state \<Rightarrow> completion" where
  "onTouchMove p e s =
     (case imgBounds s of
        None \<Rightarrow> Normal s
      | Some b \<Rightarrow>
          (case targetTouches e of
             [] \<Rightarrow> Throw TypeError s
           | t # _ \<Rightarrow>
               (let relXLocal = js_div (js_sub (clientX t) (rect_left b))
                                  (clientWidth (touchTarget e));
                    relYLocal = js_div (js_sub (clientY t) (rect_top b))
                                  (clientHeight (touchTarget e))
                in if js_ge relXLocal (Fin 0) \<and> js_ge relYLocal (Fin 0)
                      \<and> js_le relXLocal (Fin 1) \<and> js_le relYLocal (Fin 1)
                   then Normal (s\<lparr>mgOffsetX := mgTouchOffsetX p,
                                   mgOffsetY := mgTouchOffsetY p,
                                   relX := relXLocal,
                                   relY := relYLocal,
                                   showZoom := True\<rparr>)
                   else Normal (s\<lparr>showZoom := False\<rparr>))))"

definition onTouchEnd :: "engine_state \<Rightarrow> engine_state" where
  "onTouchEnd s = s\<lparr>showZoom := False\<rparr>"

section \<open>Double precision\<close>

text \<open>
  A JavaScript number is an IEEE 754 double: the result of \<open>+\<close>, \<open>-\<close>, \<open>*\<close> and
  \<open>/\<close> is the exact result rounded to the nearest double, ties to the double with an
  even significand. The doubles around a real \<open>x\<close> are the multiples of \<open>ulp x\<close>:
  \<open>2^(e-52)\<close> when \<open>2^e \<le> |x| < 2^(e+1)\<close> with \<open>e \<ge> -1022\<close>, and
  \<open>2^-1074\<close> below (the subnormal numbers). A result that rounds to
  \<open>2^1024\<close> or beyond is an infinity.
\<close>

definition round_even :: "real \<Rightarrow> int" where
  "round_even y =
     (let f = \<lfloor>y\<rfloor>; r = y - of_int f
      in if r < 1 / 2 then f else if 1 / 2 < r then f + 1 else if even f then f else f + 1)"

definition ulp :: "real \<Rightarrow> real" where
  "ulp x = 2 powi (max (bitlen \<lfloor>\<bar>x\<bar> * 2 ^ 1074\<rfloor> - 53) 0 - 1074)"

definition fl :: "real \<Rightarrow> real" where
  "fl x = of_int (round_even (x / ulp x)) * ulp x"

definition js_round :: "jsnum \<Rightarrow> jsnum" where
  "js_round a =
     (case a of
        Fin x \<Rightarrow>
          (let y = fl x
           in if 2 ^ 1024 \<le> \<bar>y\<bar> then (if 0 < y then PosInf else NegInf) else Fin y)
      | _ \<Rightarrow> a)"

text \<open>The four operations as JavaScript computes them: the exact result, rounded.\<close>

definition d_add :: "jsnum \<Rightarrow> jsnum \<Rightarrow> jsnum" where
  "d_add a b = js_round (js_add a b)"

definition d_sub :: "jsnum \<Rightarrow> jsnum \<Rightarrow> jsnum" where
  "d_sub a b = js_round (js_sub a b)"

definition d_mul :: "jsnum \<Rightarrow> jsnum \<Rightarrow> jsnum" where
  "d_mul a b = js_round (js_mul a b)"

definition d_div :: "jsnum \<Rightarrow> jsnum \<Rightarrow> jsnum" where
  "d_div a b = js_round (js_div a b)"

text \<open>A real number is a double: rounding leaves it as it is.\<close>

definition representable :: "real \<Rightarrow> bool" where
  "representable x = (js_round (Fin x) = Fin x)"

text \<open>
  \<open>mgStyle\<close> in double precision: the same statements, every operation rounded. Where
  a property of the style depends on the last bit of a result, it is stated of
  \<open>mgStyle_double\<close>.
\<close>

definition unclamped_left_double ::
    "props \<Rightarrow> window \<Rightarrow> engine_state \<Rightarrow> dom_rect \<Rightarrow> jsnum" where
  "unclamped_left_double p w s b =
     (let x = d_add (d_sub (d_mul (relX s) (rect_width b)) (d_div (mgWidth p) (Fin 2)))
                (mgOffsetX s)
      in d_add (d_add (rect_left b) x) (scrollX w))"

definition clamp_left_double :: "props \<Rightarrow> window \<Rightarrow> jsnum \<Rightarrow> jsnum" where
  "clamp_left_double p w left0 =
     (let viewportWidth = innerWidth w;
          left1 = (if js_lt left0 (scrollX w) then scrollX w else left0);
          left2 = (if js_gt (d_add left1 (mgWidth p)) (d_add viewportWidth (scrollX w))
                   then d_sub (d_add viewportWidth (scrollX w)) (mgWidth p)
                   else left1)
      in left2)"

definition mgStyle_double :: "props \<Rightarrow> window \<Rightarrow> engine_state \<Rightarrow> lens_style option" where
  "mgStyle_double p w s =
     (case imgBounds s of
        None \<Rightarrow> None
      | Some b \<Rightarrow>
          (let y = d_add (d_sub (d_mul (relY s) (rect_height b)) (d_div (mgHeight p) (Fin 2)))
                     (mgOffsetY s);
               top = d_add (d_add (rect_top b) y) (scrollY w);
               left = clamp_left_double p w (unclamped_left_double p w s b)
           in Some
             \<lparr>style_width = mgWidth p,
              style_height = mgHeight p,
              style_left = left,
              style_top = top,
              backgroundImage = (if zoomImgSrc p = [] then src p else zoomImgSrc p),
              backgroundPosition =
                (\<lparr>calc_percent = d_mul (relX s) (Fin 100),
                  calc_plus_px = d_div (mgWidth p) (Fin 2),
                  calc_minus_px = d_mul (relX s) (mgWidth p)\<rparr>,
                 \<lparr>calc_percent = d_mul (relY s) (Fin 100),
                  calc_plus_px = d_div (mgHeight p) (Fin 2),
                  calc_minus_px = d_mul (relY s) (mgWidth p)\<rparr>),
              backgroundSize =
                (d_mul (zoomFactor p) (rect_width b), d_mul (zoomFactor p) (rect_height b)),
              borderWidth = mgBorderWidth p,
              backgroundColor = mgCornerBgColor p\<rparr>))"

section \<open>Notions used in the statements\<close>

text \<open>A JavaScript number lies in the closed interval from 0 to 1.\<close>

definition in_unit :: "jsnum \<Rightarrow> bool" where
  "in_unit x = (case x of Fin r \<Rightarrow> 0 \<le> r \<and> r \<le> 1 | _ \<Rightarrow> False)"

text \<open>
  In a trace of effects, \<open>a\<close> happens before \<open>b\<close>: the first \<open>a\<close> comes before any
  \<open>b\<close>, and a \<open>b\<close> follows it.
\<close>

fun happens_before :: "effect \<Rightarrow> effect \<Rightarrow> effect list \<Rightarrow> bool" where
  "happens_before a b [] = False"
| "happens_before a b (x # xs) =
     (if x = a then b \<in> set xs else if x = b then False else happens_before a b xs)"

section \<open>Concrete inputs\<close>

text \<open>
  The inputs of the worked example: an image at \<open>{top: 100, left: 50, width: 200,
  height: 200}\<close>, the default props of the component, and a window that is not scrolled.
\<close>

definition demo_rect :: dom_rect where
  "demo_rect =
     \<lparr>rect_top = Fin 100, rect_left = Fin 50, rect_width = Fin 200, rect_height = Fin 200\<rparr>"

definition default_props :: props where
  "default_props =
     \<lparr>src = ''photo.jpg'', zoomImgSrc = '''', zoomFactor = Fin (3 / 2),
      mgWidth = Fin 150, mgHeight = Fin 150, mgBorderWidth = Fin 2,
      mgMouseOffsetX = Fin 0, mgMouseOffsetY = Fin 0,
      mgTouchOffsetX = Fin (- 50), mgTouchOffsetY = Fin (- 50),
      mgCornerBgColor = ''#fff''\<rparr>"

definition wide_window :: window where
  "wide_window = \<lparr>innerWidth = Fin 1000, scrollX = Fin 0, scrollY = Fin 0\<rparr>"

definition narrow_window :: window where
  "narrow_window = \<lparr>innerWidth = Fin 100, scrollX = Fin 0, scrollY = Fin 0\<rparr>"

definition loaded_dom :: dom where
  "loaded_dom = \<lparr>img = Some demo_rect\<rparr>"

definition measured_state :: engine_state where
  "measured_state = initial_state\<lparr>imgBounds := Some demo_rect\<rparr>"

definition shown_state :: engine_state where
  "shown_state =
     \<lparr>imgBounds = Some demo_rect, showZoom = True, mgOffsetX = Fin (- 50),
      mgOffsetY = Fin (- 50), relX = Fin (1 / 2), relY = Fin (1 / 2)\<rparr>"

definition img_element :: element where
  "img_element = \<lparr>clientWidth = Fin 200, clientHeight = Fin 200\<rparr>"

definition mouse_at :: "real \<Rightarrow> real \<Rightarrow> mouse_event" where
  "mouse_at x y = \<lparr>clientX = Fin x, clientY = Fin y, target = img_element\<rparr>"

definition touch_at :: "real \<Rightarrow> real \<Rightarrow> touch_event" where
  "touch_at x y =
     \<lparr>targetTouches = [\<lparr>clientX = Fin x, clientY = Fin y\<rparr>], touchTarget = img_element\<rparr>"

definition no_touches :: touch_event where
  "no_touches = \<lparr>targetTouches = [], touchTarget = img_element\<rparr>"

text \<open>
  A phone: a viewport of width 360, an image of width 270 at \<open>left = 36\<close>, and the
  state after a mouse move at \<open>clientX = 285\<close>, where \<open>relX\<close> is the double
  \<open>0.9222222222222223\<close> (the quotient \<open>249 / 270\<close>, rounded).
\<close>

definition narrow_rect :: dom_rect where
  "narrow_rect =
     \<lparr>rect_top = Fin 80, rect_left = Fin 36, rect_width = Fin 270, rect_height = Fin 270\<rparr>"

definition phone_window :: window where
  "phone_window = \<lparr>innerWidth = Fin 360, scrollX = Fin 0, scrollY = Fin 0\<rparr>"

definition rounded_state :: engine_state where
  "rounded_state =
     \<lparr>imgBounds = Some narrow_rect, showZoom = True, mgOffsetX = Fin 0, mgOffsetY = Fin 0,
      relX = Fin (4153319656352791 / 4503599627370496), relY = Fin (1 / 2)\<rparr>"

lemmas fixture_defs = demo_rect_def default_props_def wide_window_def narrow_window_def
  loaded_dom_def measured_state_def shown_state_def initial_state_def img_element_def
  mouse_at_def touch_at_def no_touches_def

section \<open>Facts about the definitions\<close>

lemma in_unit_iff: "(js_ge x (Fin 0) \<and> js_le x (Fin 1)) = in_unit x"
  by (cases x) (simp_all add: js_ge_def in_unit_def)

lemma touch_in_range:
  "(js_ge x (Fin 0) \<and> js_ge y (Fin 0) \<and> js_le x (Fin 1) \<and> js_le y (Fin 1))
     = (in_unit x \<and> in_unit y)"
  using in_unit_iff [of x] in_unit_iff [of y] by blast



text \<open>\<open>onTouchMove\<close> with bounds and a first touch: it returns, by one of two updates.\<close>

lemma onTouchMove_present:
  assumes "imgBounds s = Some b" and "targetTouches e = t # ts"
  shows "onTouchMove p e s =
     (let rx = js_div (js_sub (clientX t) (rect_left b)) (clientWidth (touchTarget e));
          ry = js_div (js_sub (clientY t) (rect_top b)) (clientHeight (touchTarget e))
      in if in_unit rx \<and> in_unit ry
         then Normal (s\<lparr>mgOffsetX := mgTouchOffsetX p, mgOffsetY := mgTouchOffsetY p,
                         relX := rx, relY := ry, showZoom := True\<rparr>)
         else Normal (s\<lparr>showZoom := False\<rparr>))"
  using assms by (simp add: onTouchMove_def Let_def touch_in_range)

section \<open>Facts about double precision\<close>

text \<open>Between \<open>2^e\<close> and \<open>2^(e+1)\<close> the doubles are \<open>2^(e-52)\<close> apart.\<close>

lemma ulp_eq:
  assumes lo: "2 powi e \<le> \<bar>x\<bar>" and hi: "\<bar>x\<bar> < 2 powi (e + 1)" and e: "- 1022 \<le> e"
  shows "ulp x = 2 powi (e - 52)"
proof -
  define m where "m = \<lfloor>\<bar>x\<bar> * 2 ^ 1074\<rfloor>"
  have scale: "(2::real) powi k * 2 ^ 1074 = 2 ^ nat (k + 1074)" if "- 1074 \<le> k" for k
  proof -
    have "(2::real) powi k * 2 ^ 1074 = 2 powi k * 2 powi 1074" by simp
    also have "\<dots> = 2 powi (k + 1074)" by (simp add: power_int_add)
    also have "\<dots> = 2 ^ nat (k + 1074)" using that by (simp add: power_int_def)
    finally show ?thesis .
  qed
  have "real_of_int (2 ^ nat (e + 1074)) \<le> \<bar>x\<bar> * 2 ^ 1074"
    using lo e scale [of e] by (simp add: mult_right_mono flip: scale)
  then have lower: "2 ^ nat (e + 1074) \<le> m"
    unfolding m_def by (simp add: le_floor_iff)
  have "real_of_int m \<le> \<bar>x\<bar> * 2 ^ 1074"
    unfolding m_def by simp
  also have "\<dots> < 2 powi (e + 1) * 2 ^ 1074"
    using hi by simp
  also have "\<dots> = 2 ^ nat (e + 1075)"
    using e scale [of "e + 1"] by (simp add: add.commute add.left_commute)
  finally have "real_of_int m < real_of_int (2 ^ nat (e + 1075))" by simp
  then have upper: "m < 2 ^ nat (e + 1075)"
    using of_int_less_iff by blast
  have "nat (e + 1075) - 1 = nat (e + 1074)"
    using e by simp
  with lower have "e + 1075 \<le> bitlen m"
    by (simp add: bitlen_ge_iff_power)
  moreover from upper e have "bitlen m \<le> e + 1075"
    by (simp add: bitlen_le_iff_power)
  ultimately have "bitlen m = e + 1075" by simp
  then show ?thesis
    using e by (simp add: ulp_def m_def)
qed

text \<open>Rounding a number whose binary exponent \<open>e\<close> is known.\<close>

lemma js_round_at:
  assumes "2 powi e \<le> \<bar>x\<bar>" and "\<bar>x\<bar> < 2 powi (e + 1)" and "- 1022 \<le> e"
    and "round_even (x / 2 powi (e - 52)) = n"
    and "\<bar>of_int n * 2 powi (e - 52)\<bar> < (2::real) ^ 1024"
    and "y = of_int n * 2 powi (e - 52)"
  shows "js_round (Fin x) = Fin y"
  using assms by (simp add: js_round_def fl_def ulp_eq Let_def)

lemma js_round_eq_NaN [simp]: "js_round a = NaN \<longleftrightarrow> a = NaN"
  by (cases a) (simp_all add: js_round_def Let_def)

lemma js_round_PosInf [simp]: "js_round PosInf = PosInf"
  by (simp add: js_round_def)

lemma js_round_NegInf [simp]: "js_round NegInf = NegInf"
  by (simp add: js_round_def)

lemma js_add_Fin_NaN [simp]: "js_add a (Fin b) = NaN \<longleftrightarrow> a = NaN"
  by (cases a) simp_all

lemma js_add_Fin_NaN2 [simp]: "js_add (Fin a) b = NaN \<longleftrightarrow> b = NaN"
  by (cases b) simp_all

lemma d_add_Fin_NaN: "d_add a (Fin b) = NaN \<longleftrightarrow> a = NaN"
  by (simp add: d_add_def)

lemma d_add_Fin_NaN2: "d_add (Fin a) b = NaN \<longleftrightarrow> b = NaN"
  by (simp add: d_add_def)

lemma d_sub_Fin_NaN: "d_sub a (Fin b) = NaN \<longleftrightarrow> a = NaN"
  by (simp add: d_sub_def js_sub_def)

lemma not_js_lt_Fin: "a \<noteq> NaN \<Longrightarrow> \<not> js_lt (Fin r) a \<Longrightarrow> js_le a (Fin r)"
  by (cases a) simp_all

text \<open>
  With finite inputs and an exact \<open>mgWidth / 2\<close>, the unclamped \<open>left\<close> is a number:
  an overflow gives an infinity, and no step subtracts two infinities.
\<close>

lemma unclamped_left_double_not_NaN:
  assumes "rect_left b = Fin bl" and "rect_width b = Fin bw" and "relX s = Fin rx"
    and "mgOffsetX s = Fin ox" and "mgWidth p = Fin mw" and "scrollX w = Fin sx"
    and "representable (mw / 2)"
  shows "unclamped_left_double p w s b \<noteq> NaN"
proof -
  have half: "d_div (Fin mw) (Fin 2) = Fin (mw / 2)"
    using assms(7) by (simp add: d_div_def representable_def)
  have "d_mul (Fin rx) (Fin bw) \<noteq> NaN"
    by (simp add: d_mul_def)
  then have "d_sub (d_mul (Fin rx) (Fin bw)) (Fin (mw / 2)) \<noteq> NaN"
    by (simp add: d_sub_Fin_NaN)
  then have "d_add (d_sub (d_mul (Fin rx) (Fin bw)) (Fin (mw / 2))) (Fin ox) \<noteq> NaN"
    by (simp add: d_add_Fin_NaN)
  then have "d_add (Fin bl) (d_add (d_sub (d_mul (Fin rx) (Fin bw)) (Fin (mw / 2))) (Fin ox))
      \<noteq> NaN"
    by (simp add: d_add_Fin_NaN2)
  then show ?thesis
    using assms half by (simp add: unclamped_left_double_def d_add_Fin_NaN)
qed

text \<open>
  The two clamping statements in double precision, when the lens is no wider than the
  viewport and the two sums of the right clamp are exact: the result is not left of
  \<open>scrollX\<close>, and the right edge that the second statement tests is not right of the
  viewport.
\<close>

lemma clamp_left_double_within:
  assumes mw: "mgWidth p = Fin mw" and vw: "innerWidth w = Fin vw" and sx: "scrollX w = Fin sx"
    and le: "mw \<le> vw"
    and edge: "representable (vw + sx)" and clamped: "representable (vw + sx - mw)"
    and num: "left0 \<noteq> NaN"
  shows "\<exists>l. clamp_left_double p w left0 = Fin l \<and> sx \<le> l
           \<and> js_le (d_add (Fin l) (Fin mw)) (Fin (vw + sx))"
proof -
  define left1 where "left1 = (if js_lt left0 (Fin sx) then Fin sx else left0)"
  have R: "d_add (Fin vw) (Fin sx) = Fin (vw + sx)"
    using edge by (simp add: d_add_def representable_def)
  have C: "d_sub (Fin (vw + sx)) (Fin mw) = Fin (vw + sx - mw)"
    using clamped by (simp add: d_sub_def js_sub_def representable_def)
  have unfold: "clamp_left_double p w left0 =
      (if js_lt (Fin (vw + sx)) (d_add left1 (Fin mw)) then Fin (vw + sx - mw) else left1)"
    by (simp add: clamp_left_double_def Let_def mw vw sx R C js_gt_def left1_def)
  have left1_num: "left1 \<noteq> NaN"
    using num by (simp add: left1_def)
  show ?thesis
  proof (cases "js_lt (Fin (vw + sx)) (d_add left1 (Fin mw))")
    case True
    have "d_add (Fin (vw + sx - mw)) (Fin mw) = Fin (vw + sx)"
      using edge by (simp add: d_add_def representable_def)
    with True le show ?thesis
      by (simp add: unfold)
  next
    case False
    have sum_num: "d_add left1 (Fin mw) \<noteq> NaN"
      using left1_num by (simp add: d_add_Fin_NaN)
    with False have below: "js_le (d_add left1 (Fin mw)) (Fin (vw + sx))"
      by (rule not_js_lt_Fin [rotated])
    have "left1 \<noteq> PosInf"
      using below by (auto simp: d_add_def)
    moreover have "left1 \<noteq> NegInf"
      by (cases left0) (simp_all add: left1_def)
    ultimately obtain l where l: "left1 = Fin l"
      using left1_num by (cases left1) auto
    have "sx \<le> l"
      using l by (cases left0) (auto simp: left1_def split: if_splits)
    with False below l show ?thesis
      by (simp add: unfold)
  qed
qed

lemma mgStyle_double_left:
  "imgBounds s = Some b \<Longrightarrow>
     map_option style_left (mgStyle_double p w s)
       = Some (clamp_left_double p w (unclamped_left_double p w s b))"
  by (simp add: mgStyle_double_def Let_def)

text \<open>The roundings that occur on the phone.\<close>

lemmas round_eval = round_even_def power_int_minus

lemma round_product:
  assumes "x = 4153319656352791 / 4503599627370496 * 270"
  shows "js_round (Fin x) = Fin (249 + 1 / 2 ^ 45)"
  unfolding assms
  by (rule js_round_at [where e = 7 and n = 8760908650119169]) (simp_all add: round_eval)

lemma round_75:
  assumes "x = 75"
  shows "js_round (Fin x) = Fin 75"
  unfolding assms
  by (rule js_round_at [where e = 6 and n = "75 * 2 ^ 46"]) (simp_all add: round_eval)

lemma round_174:
  assumes "x = 174 + 1 / 2 ^ 45"
  shows "js_round (Fin x) = Fin (174 + 1 / 2 ^ 45)"
  unfolding assms
  by (rule js_round_at [where e = 7 and n = "174 * 2 ^ 45 + 1"]) (simp_all add: round_eval)

lemma round_210:
  assumes "x = 210 + 1 / 2 ^ 45"
  shows "js_round (Fin x) = Fin (210 + 1 / 2 ^ 45)"
  unfolding assms
  by (rule js_round_at [where e = 7 and n = "210 * 2 ^ 45 + 1"]) (simp_all add: round_eval)

text \<open>
  \<open>360 + 2^-45\<close> lies halfway between the doubles \<open>360\<close> and \<open>360 + 2^-44\<close>;
  the tie goes to \<open>360\<close>, whose significand is even.
\<close>

lemma round_tie:
  assumes "x = 360 + 1 / 2 ^ 45"
  shows "js_round (Fin x) = Fin 360"
  unfolding assms
  by (rule js_round_at [where e = 8 and n = "360 * 2 ^ 44"]) (simp_all add: round_eval)

lemma round_360:
  assumes "x = 360"
  shows "js_round (Fin x) = Fin 360"
  unfolding assms
  by (rule js_round_at [where e = 8 and n = "360 * 2 ^ 44"]) (simp_all add: round_eval)

lemma round_plain_210:
  assumes "x = 210"
  shows "js_round (Fin x) = Fin 210"
  unfolding assms
  by (rule js_round_at [where e = 7 and n = "210 * 2 ^ 45"]) (simp_all add: round_eval)

lemma round_249:
  assumes "x = 249"
  shows "js_round (Fin x) = Fin 249"
  unfolding assms
  by (rule js_round_at [where e = 7 and n = "249 * 2 ^ 45"]) (simp_all add: round_eval)

lemma round_quotient:
  assumes "x = 249 / 270"
  shows "js_round (Fin x) = Fin (4153319656352791 / 4503599627370496)"
  unfolding assms
  by (rule js_round_at [where e = "- 1" and n = 8306639312705582]) (simp_all add: round_eval)

lemma rounded_unclamped_left:
  "unclamped_left_double default_props phone_window rounded_state narrow_rect
     = Fin (210 + 1 / 2 ^ 45)"
  by (simp add: unclamped_left_double_def rounded_state_def narrow_rect_def
      default_props_def phone_window_def d_add_def d_sub_def d_mul_def d_div_def js_sub_def
      round_product round_75 round_174 round_210)

lemma rounded_clamp_left:
  "clamp_left_double default_props phone_window (Fin (210 + 1 / 2 ^ 45))
     = Fin (210 + 1 / 2 ^ 45)"
  by (simp add: clamp_left_double_def default_props_def phone_window_def js_gt_def
      d_add_def d_sub_def js_sub_def round_tie round_360)

section \<open>The lens positioner\<close>

text \<open>
  Claim C1, as stated: with \<open>relX\<close> and \<open>relY\<close> in the unit interval and a lens no wider
  than the viewport, the \<open>left\<close> of the lens style lies between \<open>scrollX\<close> and
  \<open>scrollX + viewportWidth - mgWidth\<close>. In double precision it can lie above: on the
  phone, \<open>relX * 270\<close> rounds to \<open>249 + 2^-45\<close>, the unclamped \<open>left\<close> is
  \<open>210 + 2^-45\<close> (printed \<open>210.00000000000003\<close>), and \<open>left + 150\<close> rounds to
  \<open>360\<close>, so the right clamp does not fire; the bound is \<open>0 + 360 - 150 = 210\<close>.
\<close>

theorem rounded_left_counterexample:
  "d_div (d_sub (Fin 285) (Fin 36)) (Fin 270) = relX rounded_state
   \<and> in_unit (relX rounded_state) \<and> in_unit (relY rounded_state)
   \<and> js_ge (innerWidth phone_window) (mgWidth default_props)
   \<and> map_option style_left (mgStyle_double default_props phone_window rounded_state)
       = Some (Fin (210 + 1 / 2 ^ 45))
   \<and> d_sub (d_add (scrollX phone_window) (innerWidth phone_window)) (mgWidth default_props)
       = Fin 210
   \<and> \<not> js_le (Fin (210 + 1 / 2 ^ 45)) (Fin 210)"
proof -
  have "d_sub (Fin 285) (Fin 36) = Fin 249"
    by (simp add: d_sub_def js_sub_def round_249)
  then have mapped: "d_div (d_sub (Fin 285) (Fin 36)) (Fin 270) = relX rounded_state"
    by (simp add: d_div_def round_quotient rounded_state_def)
  have "map_option style_left (mgStyle_double default_props phone_window rounded_state)
       = Some (clamp_left_double default_props phone_window
           (unclamped_left_double default_props phone_window rounded_state narrow_rect))"
    by (rule mgStyle_double_left) (simp add: rounded_state_def)
  then have placed:
    "map_option style_left (mgStyle_double default_props phone_window rounded_state)
       = Some (Fin (210 + 1 / 2 ^ 45))"
    by (simp only: rounded_unclamped_left rounded_clamp_left)
  have bound:
    "d_sub (d_add (scrollX phone_window) (innerWidth phone_window)) (mgWidth default_props)
       = Fin 210"
    by (simp add: phone_window_def default_props_def d_add_def d_sub_def js_sub_def
        round_360 round_plain_210)
  from mapped placed bound show ?thesis
    by (simp add: rounded_state_def phone_window_def default_props_def in_unit_def js_ge_def)
qed

text \<open>
  Claim C1, amended. With \<open>relX\<close> and \<open>relY\<close> in the unit interval, finite bounds,
  offset, lens size, viewport width and scroll position, a lens no wider than the
  viewport, and \<open>mgWidth / 2\<close>, \<open>viewportWidth + scrollX\<close> and
  \<open>viewportWidth + scrollX - mgWidth\<close> computed without rounding (as they are for whole
  pixels), the \<open>left\<close> of the lens style is at least \<open>scrollX\<close>, and the right edge
  \<open>left + mgWidth\<close>, as the right clamp computes it, is at most
  \<open>scrollX + viewportWidth\<close>.
\<close>

theorem mgStyle_double_left_within_viewport:
  assumes "imgBounds s = Some b"
    and "rect_left b = Fin bl" and "rect_width b = Fin bw"
    and "relX s = Fin rx" and "0 \<le> rx" and "rx \<le> 1"
    and "relY s = Fin ry" and "0 \<le> ry" and "ry \<le> 1"
    and "mgOffsetX s = Fin ox"
    and "mgWidth p = Fin mw" and "mgHeight p = Fin mh"
    and "innerWidth w = Fin vw" and "scrollX w = Fin sx"
    and "mw \<le> vw"
    and "representable (mw / 2)"
    and "representable (vw + sx)" and "representable (vw + sx - mw)"
  shows "\<exists>st l. mgStyle_double p w s = Some st \<and> style_left st = Fin l
           \<and> sx \<le> l \<and> js_le (d_add (Fin l) (Fin mw)) (Fin (vw + sx))"
proof -
  have "unclamped_left_double p w s b \<noteq> NaN"
    using assms by (simp add: unclamped_left_double_not_NaN)
  then obtain l where l: "clamp_left_double p w (unclamped_left_double p w s b) = Fin l"
      "sx \<le> l" "js_le (d_add (Fin l) (Fin mw)) (Fin (vw + sx))"
    using clamp_left_double_within assms by blast
  from mgStyle_double_left [OF assms(1), of p w] obtain st where
    "mgStyle_double p w s = Some st"
    "style_left st = clamp_left_double p w (unclamped_left_double p w s b)"
    by auto
  with l show ?thesis by auto
qed

text \<open>
  On the phone the hypotheses hold (\<open>75\<close>, \<open>360\<close> and \<open>210\<close> are doubles), and the
  style found there, \<open>left = 210 + 2^-45\<close>, has a computed right edge of \<open>360\<close>.
\<close>

theorem mgStyle_double_left_within_viewport_witness:
  "\<exists>st l. mgStyle_double default_props phone_window rounded_state = Some st
     \<and> style_left st = Fin l \<and> 0 \<le> l
     \<and> js_le (d_add (Fin l) (Fin 150)) (Fin (360 + 0))"
  using mgStyle_double_left_within_viewport [where s = rounded_state and b = narrow_rect
      and p = default_props and w = phone_window and bl = 36 and bw = 270
      and rx = "4153319656352791 / 4503599627370496" and ry = "1 / 2" and ox = 0
      and mw = 150 and mh = 150 and vw = 360 and sx = 0]
  by (simp add: rounded_state_def narrow_rect_def default_props_def phone_window_def
      representable_def round_75 round_360 round_plain_210)




text \<open>
  Claim C4. With bounds present, the background of the lens is placed at
  \<open>calc(relX*100% + mgWidth/2 px - relX*mgWidth px)\<close> horizontally and at
  \<open>calc(relY*100% + mgHeight/2 px - relY*mgWidth px)\<close> vertically (the last term of
  the vertical formula uses \<open>mgWidth\<close>), and its size is \<open>zoomFactor * bounds.width\<close>
  percent by \<open>zoomFactor * bounds.height\<close> percent.
\<close>

theorem mgStyle_background:
  assumes "imgBounds s = Some b"
  shows "\<exists>st. mgStyle p w s = Some st
     \<and> backgroundPosition st =
         (\<lparr>calc_percent = js_mul (relX s) (Fin 100),
           calc_plus_px = js_div (mgWidth p) (Fin 2),
           calc_minus_px = js_mul (relX s) (mgWidth p)\<rparr>,
          \<lparr>calc_percent = js_mul (relY s) (Fin 100),
           calc_plus_px = js_div (mgHeight p) (Fin 2),
           calc_minus_px = js_mul (relY s) (mgWidth p)\<rparr>)
     \<and> backgroundSize st =
         (js_mul (zoomFactor p) (rect_width b), js_mul (zoomFactor p) (rect_height b))"
  using assms by (simp add: mgStyle_def Let_def)

text \<open>
  A lens of 150 by 100 pixels at the centre of the image: the vertical position subtracts
  \<open>0.5 * 150 = 75\<close> pixels, not \<open>0.5 * 100 = 50\<close>.
\<close>

theorem mgStyle_background_witness:
  "\<exists>st. mgStyle (default_props\<lparr>mgHeight := Fin 100\<rparr>) wide_window shown_state = Some st
     \<and> backgroundPosition st =
         (\<lparr>calc_percent = Fin 50, calc_plus_px = Fin 75, calc_minus_px = Fin 75\<rparr>,
          \<lparr>calc_percent = Fin 50, calc_plus_px = Fin 50, calc_minus_px = Fin 75\<rparr>)
     \<and> backgroundSize st = (Fin 300, Fin 300)"
  using mgStyle_background [where s = shown_state and b = demo_rect
      and p = "default_props\<lparr>mgHeight := Fin 100\<rparr>" and w = wide_window]
  by (simp add: fixture_defs)

section \<open>The coordinate mapper\<close>




section \<open>Visibility\<close>

text \<open>
  Claim C5. A touch move with bounds present (and a first touch to read) computes the
  relative position; the lens is shown exactly when both coordinates lie in the closed
  interval from 0 to 1, and then the touch offsets and the position are stored;
  otherwise it is hidden. A touch end hides the lens.
\<close>

theorem onTouchMove_visibility:
  fixes t :: pointer and b :: dom_rect and e :: touch_event and rx ry :: jsnum
  defines "rx \<equiv> js_div (js_sub (clientX t) (rect_left b)) (clientWidth (touchTarget e))"
    and "ry \<equiv> js_div (js_sub (clientY t) (rect_top b)) (clientHeight (touchTarget e))"
  shows "(imgBounds s = Some b \<and> targetTouches e = t # ts \<longrightarrow>
            (\<exists>s'. onTouchMove p e s = Normal s'
               \<and> showZoom s' = (in_unit rx \<and> in_unit ry)
               \<and> (in_unit rx \<and> in_unit ry \<longrightarrow>
                    mgOffsetX s' = mgTouchOffsetX p \<and> mgOffsetY s' = mgTouchOffsetY p
                    \<and> relX s' = rx \<and> relY s' = ry)))
         \<and> showZoom (onTouchEnd s0) = False"
proof -
  have "\<exists>s'. onTouchMove p e s = Normal s'
               \<and> showZoom s' = (in_unit rx \<and> in_unit ry)
               \<and> (in_unit rx \<and> in_unit ry \<longrightarrow>
                    mgOffsetX s' = mgTouchOffsetX p \<and> mgOffsetY s' = mgTouchOffsetY p
                    \<and> relX s' = rx \<and> relY s' = ry)"
    if "imgBounds s = Some b" and "targetTouches e = t # ts"
    using onTouchMove_present [OF that, of p] by (auto simp: Let_def rx_def ry_def)
  moreover have "showZoom (onTouchEnd s0) = False"
    by (simp add: onTouchEnd_def)
  ultimately show ?thesis by blast
qed

text \<open>
  On the image of width 200 at \<open>left = 50\<close>, a touch at \<open>x = 290\<close> has \<open>relX = 1.2\<close>
  and hides the lens; a touch at \<open>x = 249.98\<close> has \<open>relX = 0.9999\<close> and shows it.
\<close>

theorem onTouchMove_visibility_witness:
  "onTouchMove default_props (touch_at 290 200) shown_state
     = Normal (shown_state\<lparr>showZoom := False\<rparr>)
   \<and> onTouchMove default_props (touch_at (12499 / 50) 200) measured_state
     = Normal (shown_state\<lparr>relX := Fin (9999 / 10000)\<rparr>)
   \<and> showZoom (onTouchEnd shown_state) = False"
  using onTouchMove_visibility [where s = shown_state and b = demo_rect
      and e = "touch_at 290 200" and t = "\<lparr>clientX = Fin 290, clientY = Fin 200\<rparr>"
      and ts = "[]" and p = default_props and ?s0.0 = shown_state]
    onTouchMove_visibility [where s = measured_state and b = demo_rect
      and e = "touch_at (12499 / 50) 200"
      and t = "\<lparr>clientX = Fin (12499 / 50), clientY = Fin 200\<rparr>"
      and ts = "[]" and p = default_props and ?s0.0 = shown_state]
  by (simp add: fixture_defs in_unit_def js_sub_def onTouchMove_def js_ge_def onTouchEnd_def
      Let_def)

text \<open>
  Claim C10. A touch move with bounds present whose relative position falls outside the
  unit square in either axis changes the visibility flag only: the stored relative
  position, the offset pair and the bounds keep their values.
\<close>

theorem onTouchMove_outside_frame:
  fixes t :: pointer and b :: dom_rect and e :: touch_event and rx ry :: jsnum
  defines "rx \<equiv> js_div (js_sub (clientX t) (rect_left b)) (clientWidth (touchTarget e))"
    and "ry \<equiv> js_div (js_sub (clientY t) (rect_top b)) (clientHeight (touchTarget e))"
  assumes "imgBounds s = Some b" and "targetTouches e = t # ts"
    and "\<not> (in_unit rx \<and> in_unit ry)"
  shows "\<exists>s'. onTouchMove p e s = Normal s' \<and> s' = s\<lparr>showZoom := False\<rparr>
           \<and> relX s' = relX s \<and> relY s' = relY s
           \<and> mgOffsetX s' = mgOffsetX s \<and> mgOffsetY s' = mgOffsetY s
           \<and> imgBounds s' = imgBounds s"
  using onTouchMove_present [OF assms(3,4), of p] assms(5)
  by (auto simp: Let_def rx_def ry_def)

text \<open>
  A touch at the centre of the image stores \<open>relX = relY = 0.5\<close> and the offsets
  \<open>-50\<close>; the next touch, below the image (\<open>relY = 2\<close>), only hides the lens.
\<close>

theorem onTouchMove_outside_frame_witness:
  "onTouchMove default_props (touch_at 150 200) measured_state = Normal shown_state
   \<and> onTouchMove default_props (touch_at 150 500) shown_state
       = Normal (shown_state\<lparr>showZoom := False\<rparr>)
   \<and> relX (shown_state\<lparr>showZoom := False\<rparr>) = Fin (1 / 2)
   \<and> mgOffsetX (shown_state\<lparr>showZoom := False\<rparr>) = Fin (- 50)"
  using onTouchMove_outside_frame [where s = shown_state and b = demo_rect
      and e = "touch_at 150 500" and t = "\<lparr>clientX = Fin 150, clientY = Fin 500\<rparr>"
      and ts = "[]" and p = default_props]
  by (simp add: fixture_defs in_unit_def js_sub_def onTouchMove_def js_ge_def Let_def)

text \<open>
  Claim C6. In the mouse modality, a pointer enter runs the measurement
  (\<open>calcImgBounds\<close>, which reads the rectangle of the image when there is one) and
  leaves the visibility flag as it was; a pointer move with bounds present shows the
  lens, whatever the position; a pointer leave hides it.
\<close>

theorem mouse_visibility:
  "onMouseEnter d s = calcImgBounds d s
   \<and> showZoom (snd (onMouseEnter d s)) = showZoom s
   \<and> (img d = Some r \<longrightarrow>
        GetBoundingClientRect \<in> set (fst (onMouseEnter d s))
        \<and> imgBounds (snd (onMouseEnter d s)) = Some r)
   \<and> (imgBounds s = Some b \<longrightarrow> showZoom (onMouseMove p e s) = True)
   \<and> showZoom (onMouseOut s) = False"
  by (simp add: onMouseEnter_def calcImgBounds_def onMouseMove_def onMouseOut_def
      split: option.split)

theorem mouse_visibility_witness:
  "showZoom (snd (onMouseEnter loaded_dom initial_state)) = False
   \<and> imgBounds (snd (onMouseEnter loaded_dom initial_state)) = Some demo_rect
   \<and> showZoom (onMouseMove default_props (mouse_at 350 0) measured_state) = True
   \<and> showZoom (onMouseOut shown_state) = False"
  using mouse_visibility [where d = loaded_dom and r = demo_rect and s = measured_state
      and b = demo_rect and p = default_props and e = "mouse_at 350 0"]
  by (simp add: fixture_defs onMouseEnter_def calcImgBounds_def onMouseOut_def)

section \<open>Events that cannot be mapped\<close>

text \<open>
  Claim C7. A pointer move or a touch move that arrives while there are no bounds
  returns at once, and the whole state (visibility flag, relative position, offset
  pair, bounds) is what it was.
\<close>

theorem move_without_bounds:
  assumes "imgBounds s = None"
  shows "onMouseMove p e s = s \<and> onTouchMove p e' s = Normal s"
  using assms by (simp add: onMouseMove_def onTouchMove_def)

theorem move_without_bounds_witness:
  "onMouseMove default_props (mouse_at 150 200) initial_state = initial_state
   \<and> onTouchMove default_props (touch_at 150 200) initial_state = Normal initial_state"
  using move_without_bounds [where s = initial_state and p = default_props
      and e = "mouse_at 150 200" and e' = "touch_at 150 200"]
  by (simp add: initial_state_def)

text \<open>
  Claim C8, as stated: a touch move with no active touch does not throw. With bounds
  present it does: reading \<open>clientX\<close> of the missing first touch is a TypeError.
\<close>

theorem empty_touch_list_counterexample:
  "targetTouches no_touches = []
   \<and> onTouchMove default_props no_touches measured_state = Throw TypeError measured_state"
  by (simp add: fixture_defs onTouchMove_def)

text \<open>
  Claim C8, amended. A touch move with no active touch performs no update: the state
  (visibility flag, relative position, offset pair, bounds) is what it was. The handler
  returns when there are no bounds; with bounds present it throws a TypeError before any
  ref is written.
\<close>

theorem empty_touch_list_state_unchanged:
  assumes "targetTouches e = []"
  shows "onTouchMove p e s =
     (case imgBounds s of None \<Rightarrow> Normal s | Some b \<Rightarrow> Throw TypeError s)"
  using assms by (simp add: onTouchMove_def split: option.split)

theorem empty_touch_list_state_unchanged_witness:
  "onTouchMove default_props no_touches initial_state = Normal initial_state
   \<and> onTouchMove default_props no_touches shown_state = Throw TypeError shown_state"
  using empty_touch_list_state_unchanged [where e = no_touches and p = default_props
      and s = initial_state]
    empty_touch_list_state_unchanged [where e = no_touches and p = default_props
      and s = shown_state]
  by (simp add: fixture_defs)

section \<open>Image load\<close>

text \<open>
  Claim C9, as stated: in the image-load handler the bounds are measured before the
  notification is emitted. On a freshly mounted component whose image has loaded, the
  handler emits first and measures last.
\<close>

theorem onImageLoad_order_counterexample:
  "fst (onImageLoad loaded_dom initial_state)
     = [Emit ''image:load'', ConsoleLog ''calcImgBounds'', GetBoundingClientRect]
   \<and> \<not> happens_before GetBoundingClientRect (Emit ''image:load'')
         (fst (onImageLoad loaded_dom initial_state))"
  by (simp add: fixture_defs onImageLoad_def calcImgBounds_def)

text \<open>
  Claim C9, amended. The image-load handler emits the notification \<open>image:load\<close> once,
  as its first effect, and then runs the measurement: the notification happens before
  the bounds are measured, and when the image element exists the handler leaves its
  rectangle in the bounds.
\<close>

theorem onImageLoad_emits_then_measures:
  "fst (onImageLoad d s) = Emit ''image:load'' # fst (calcImgBounds d s)
   \<and> snd (onImageLoad d s) = snd (calcImgBounds d s)
   \<and> length (filter (\<lambda>x. x = Emit ''image:load'') (fst (onImageLoad d s))) = 1
   \<and> (img d = Some r \<longrightarrow>
        happens_before (Emit ''image:load'') GetBoundingClientRect (fst (onImageLoad d s))
        \<and> imgBounds (snd (onImageLoad d s)) = Some r)"
  by (simp add: onImageLoad_def calcImgBounds_def split: option.split)

theorem onImageLoad_emits_then_measures_witness:
  "happens_before (Emit ''image:load'') GetBoundingClientRect
     (fst (onImageLoad loaded_dom initial_state))
   \<and> snd (onImageLoad loaded_dom initial_state) = measured_state"
  using onImageLoad_emits_then_measures [where d = loaded_dom and s = initial_state
      and r = demo_rect]
  by (simp add: fixture_defs calcImgBounds_def)

end
